theory Spec2Isabelle
  imports Main "HOL-Library.Word"
begin

section \<open>Base types\<close>

text \<open>
  The modules \<^verbatim>\<open>ethereum.base_types\<close> and \<^verbatim>\<open>fork_types\<close> are imported by
  \<^verbatim>\<open>transactions.py\<close> but are not part of the sources at hand. The field types they
  provide are taken as the data model describes them: an unsigned 64-bit quantity, an
  unsigned 256-bit quantity, an arbitrary-precision non-negative integer, fixed-length
  20-byte addresses and 32-byte hashes, and variable-length byte strings.
\<close>

type_synonym byte = "8 word"
type_synonym Bytes = "byte list"
type_synonym U64 = "64 word"
type_synonym U256 = "256 word"
type_synonym Uint = nat

text \<open>
  The errors the operations can end with. \<open>InvalidBlock\<close> is the block-validity error of
  \<^verbatim>\<open>ethereum.exceptions\<close>; \<open>IndexError\<close> and \<open>ValueError\<close> are Python's built-in
  ones; \<open>Exception\<close> is a plain \<^verbatim>\<open>Exception\<close> carrying its message.
\<close>

datatype error = InvalidBlock | IndexError | ValueError | Exception string

text \<open>
  Sequences of exactly 20 and of exactly 32 elements: at bytes, the fixed-length byte
  types \<^verbatim>\<open>Bytes20\<close> and \<^verbatim>\<open>Bytes32\<close>.
\<close>

typedef 'a list20 = "{xs :: 'a list. length xs = 20}"
  by (rule exI [of _ "replicate 20 undefined"]) simp

typedef 'a list32 = "{xs :: 'a list. length xs = 32}"
  by (rule exI [of _ "replicate 32 undefined"]) simp

setup_lifting type_definition_list20

setup_lifting type_definition_list32

type_synonym Bytes20 = "byte list20"
type_synonym Bytes32 = "byte list32"
type_synonym Address = Bytes20
type_synonym VersionedHash = Bytes32

text \<open>
  Modelled from the spec: the constructors of the fixed-length byte types
  (\<^verbatim>\<open>Bytes20(raw)\<close>, \<^verbatim>\<open>Bytes32(raw)\<close> of the absent \<^verbatim>\<open>base_types\<close>). The semantic
  types reject a value of the wrong size when it is constructed.
\<close>

lift_definition (code_dt) new_Bytes20 :: "'a list \<Rightarrow> error + 'a list20"
  is "\<lambda>raw. if length raw = 20 then Inr raw else Inl ValueError"
  by (auto simp: pred_sum.simps)

lift_definition (code_dt) new_Bytes32 :: "'a list \<Rightarrow> error + 'a list32"
  is "\<lambda>raw. if length raw = 32 then Inr raw else Inl ValueError"
  by (auto simp: pred_sum.simps)

instantiation list20 :: (equal) equal
begin

lift_definition equal_list20 :: "'a list20 \<Rightarrow> 'a list20 \<Rightarrow> bool" is "(=)" .

instance
  by standard (transfer, simp)

end

instantiation list32 :: (equal) equal
begin

lift_definition equal_list32 :: "'a list32 \<Rightarrow> 'a list32 \<Rightarrow> bool" is "(=)" .

instance
  by standard (transfer, simp)

end

section \<open>The transaction variants\<close>

text \<open>\<^verbatim>\<open>Union[Bytes0, Address]\<close>: the empty marker of a contract creation, or an address.\<close>

datatype Bytes0_or_Address = Bytes0 | Address Address

type_synonym access_list_type = "(Address \<times> Bytes32 list) list"

record LegacyTransaction =
  nonce :: U256
  gas_price :: Uint
  gas :: Uint
  to :: Bytes0_or_Address
  "value" :: U256
  data :: Bytes
  v :: U256
  r :: U256
  s :: U256

record AccessListTransaction =
  chain_id :: U64
  nonce :: U256
  gas_price :: Uint
  gas :: Uint
  to :: Bytes0_or_Address
  "value" :: U256
  data :: Bytes
  access_list :: access_list_type
  y_parity :: U256
  r :: U256
  s :: U256

record FeeMarketTransaction =
  chain_id :: U64
  nonce :: U256
  max_priority_fee_per_gas :: Uint
  max_fee_per_gas :: Uint
  gas :: Uint
  to :: Bytes0_or_Address
  "value" :: U256
  data :: Bytes
  access_list :: access_list_type
  y_parity :: U256
  r :: U256
  s :: U256

record BlobTransaction =
  chain_id :: U64
  nonce :: U256
  max_priority_fee_per_gas :: Uint
  max_fee_per_gas :: Uint
  gas :: Uint
  to :: Address
  "value" :: U256
  data :: Bytes
  access_list :: access_list_type
  max_fee_per_blob_gas :: U256
  blob_versioned_hashes :: "VersionedHash list"
  y_parity :: U256
  r :: U256
  s :: U256

text \<open>The closed union \<^verbatim>\<open>Transaction\<close> of the four variants.\<close>

datatype Transaction =
  Legacy "LegacyTransaction"
  | AccessList "AccessListTransaction"
  | FeeMarket "FeeMarketTransaction"
  | Blob "BlobTransaction"

text \<open>
  Python checks the class of an argument when the function runs
  (\<^verbatim>\<open>isinstance\<close>), so \<^verbatim>\<open>encode_transaction\<close> and \<^verbatim>\<open>decode_transaction\<close> can be handed
  any object. \<open>pyobj\<close> is the type of the objects they are modelled on: a byte string, a
  transaction of the union, or an object of another class (\<^verbatim>\<open>None\<close>, an \<^verbatim>\<open>int\<close>, a
  \<^verbatim>\<open>str\<close>). The fields of a record have the types their declarations give them.
\<close>

datatype pyobj =
  PyBytes Bytes
  | PyTx Transaction
  | PyNone
  | PyInt int
  | PyStr string

section \<open>The structural codec\<close>

text \<open>
  \<^verbatim>\<open>transactions.py\<close> calls \<^verbatim>\<open>rlp.encode\<close> and \<^verbatim>\<open>rlp.decode_to\<close> of the module
  \<^verbatim>\<open>ethereum.rlp\<close>, which is not part of the sources at hand. The definitions of this
  section stand in for it. They follow the description of the codec as the recursive
  length-prefixed encoding of nested lists, byte strings and non-negative integers, with
  the canonical (shortest-form, no leading zero) encoding of integers, that rejects a
  payload not matching the expected field shape: wrong arity, wrong element type, or a
  non-canonical integer. A failure of the codec is the block-validity error.
\<close>

text \<open>What the codec encodes: a byte string or a list of items.\<close>

datatype RLP = RBytes Bytes | RList "RLP list"

text \<open>
  Modelled from the spec: the big-endian bytes of a non-negative integer in shortest form
  (\<^verbatim>\<open>to_be_bytes\<close> of the absent \<^verbatim>\<open>base_types\<close>); zero is the empty byte string.
\<close>

fun to_be_bytes :: "nat \<Rightarrow> Bytes" where
  "to_be_bytes n = (if n = 0 then [] else to_be_bytes (n div 256) @ [of_nat (n mod 256)])"

text \<open>Modelled from the spec: the integer a big-endian byte string stands for.\<close>

definition from_be_bytes :: "Bytes \<Rightarrow> nat" where
  "from_be_bytes bs = foldl (\<lambda>acc b. acc * 256 + unat b) 0 bs"

text \<open>
  Modelled from the spec: the length prefix of \<^verbatim>\<open>rlp.encode\<close>. A payload shorter than 56
  bytes has its length added to the offset in one byte; a longer one has the length of its
  length there, followed by the big-endian bytes of the length.
\<close>

definition encode_length :: "nat \<Rightarrow> nat \<Rightarrow> Bytes" where
  "encode_length len offset =
     (if len < 56 then [of_nat (offset + len)]
      else of_nat (offset + 55 + length (to_be_bytes len)) # to_be_bytes len)"

text \<open>
  Modelled from the spec: \<^verbatim>\<open>rlp.encode\<close> on a byte string. A single byte below 0x80 is
  its own encoding.
\<close>

definition encode_bytes :: "Bytes \<Rightarrow> Bytes" where
  "encode_bytes raw =
     (if length raw = 1 \<and> hd raw < 0x80 then raw
      else encode_length (length raw) 0x80 @ raw)"

text \<open>Modelled from the spec: \<^verbatim>\<open>rlp.encode\<close>.\<close>

fun rlp_encode :: "RLP \<Rightarrow> Bytes" where
  "rlp_encode (RBytes raw) = encode_bytes raw"
| "rlp_encode (RList items) =
     (let joined = concat (map rlp_encode items)
      in encode_length (length joined) 0xC0 @ joined)"

text \<open>
  Modelled from the spec: the length that follows a long-form prefix, \<open>ll\<close> big-endian
  bytes with no leading zero, standing for a length of 56 or more.
\<close>

definition long_length :: "nat \<Rightarrow> Bytes \<Rightarrow> error + nat" where
  "long_length ll rest =
     (if length rest < ll then Inl InvalidBlock
      else case rest of
        [] \<Rightarrow> Inl InvalidBlock
      | c # _ \<Rightarrow>
          if c = 0 then Inl InvalidBlock
          else let len = from_be_bytes (take ll rest)
               in if len < 56 then Inl InvalidBlock else Inr len)"

text \<open>
  Modelled from the spec: reading the prefix of an encoded item. The result says whether
  the item is a list, where its payload starts and how long the payload is.
\<close>

definition decode_length :: "Bytes \<Rightarrow> error + (bool \<times> nat \<times> nat)" where
  "decode_length bs =
     (case bs of
        [] \<Rightarrow> Inl InvalidBlock
      | b # rest \<Rightarrow>
          let p = unat b in
          if p < 0x80 then Inr (False, 0, 1)
          else if p \<le> 0xB7 then Inr (False, 1, p - 0x80)
          else if p \<le> 0xBF then
            (case long_length (p - 0xB7) rest of
               Inl e \<Rightarrow> Inl e
             | Inr len \<Rightarrow> Inr (False, 1 + (p - 0xB7), len))
          else if p \<le> 0xF7 then Inr (True, 1, p - 0xC0)
          else
            (case long_length (p - 0xF7) rest of
               Inl e \<Rightarrow> Inl e
             | Inr len \<Rightarrow> Inr (True, 1 + (p - 0xF7), len)))"

text \<open>
  Modelled from the spec: decoding a byte string to an item, and the items of a list from
  the concatenation of their encodings. The prefix must account for every byte of the
  input, and a single byte below 0x80 must not carry a prefix.
\<close>

function rlp_decode :: "Bytes \<Rightarrow> error + RLP"
  and decode_joined_encodings :: "Bytes \<Rightarrow> error + RLP list" where
  "rlp_decode bs =
     (case decode_length bs of
        Inl e \<Rightarrow> Inl e
      | Inr (is_list, off, len) \<Rightarrow>
          if length bs \<noteq> off + len then Inl InvalidBlock
          else if is_list then
            (case decode_joined_encodings (drop off bs) of
               Inl e \<Rightarrow> Inl e
             | Inr items \<Rightarrow> Inr (RList items))
          else if off = 1 \<and> len = 1 \<and> bs ! 1 < 0x80 then Inl InvalidBlock
          else Inr (RBytes (drop off bs)))"
| "decode_joined_encodings bs =
     (if bs = [] then Inr []
      else case decode_length bs of
        Inl e \<Rightarrow> Inl e
      | Inr (is_list, off, len) \<Rightarrow>
          (case rlp_decode (take (off + len) bs) of
             Inl e \<Rightarrow> Inl e
           | Inr item \<Rightarrow>
               (case decode_joined_encodings (drop (off + len) bs) of
                  Inl e \<Rightarrow> Inl e
                | Inr items \<Rightarrow> Inr (item # items))))"
  by pat_completeness auto
termination
proof (relation "measure (\<lambda>x. case x of Inl bs \<Rightarrow> 2 * length bs | Inr bs \<Rightarrow> 2 * length bs + 1)")
  show "wf (measure (\<lambda>x. case x of Inl bs \<Rightarrow> 2 * length bs | Inr bs \<Rightarrow> 2 * length bs + 1))"
    by simp
next
  fix bs :: Bytes and x2 x y
  fix xa :: nat and ya :: nat
  assume "decode_length bs = Inr x2" "(x, y) = x2" "(xa, ya) = y" "x"
  then have "decode_length bs = Inr (x, xa, ya)" by simp
  with \<open>x\<close> have "bs \<noteq> []" "0 < xa"
    by (auto simp: decode_length_def Let_def split: list.splits if_splits sum.splits)
  then show "(Inr (drop xa bs), Inl bs)
      \<in> measure (\<lambda>x. case x of Inl bs \<Rightarrow> 2 * length bs | Inr bs \<Rightarrow> 2 * length bs + 1)"
    by (cases bs) auto
next
  fix bs :: Bytes and x2 x y
  fix xa :: nat and ya :: nat
  assume "bs \<noteq> []"
  then show "(Inl (take (xa + ya) bs), Inr bs)
      \<in> measure (\<lambda>x. case x of Inl bs \<Rightarrow> 2 * length bs | Inr bs \<Rightarrow> 2 * length bs + 1)"
    by (simp add: min_def)
next
  fix bs :: Bytes and x2 x y x2a
  fix xa :: nat and ya :: nat
  assume "bs \<noteq> []" "decode_length bs = Inr x2" "(x, y) = x2" "(xa, ya) = y"
  then have "decode_length bs = Inr (x, xa, ya)" by simp
  then have "0 < xa + ya"
    by (auto simp: decode_length_def Let_def split: list.splits if_splits sum.splits)
  with \<open>bs \<noteq> []\<close>
  show "(Inr (drop (xa + ya) bs), Inr bs)
      \<in> measure (\<lambda>x. case x of Inl bs \<Rightarrow> 2 * length bs | Inr bs \<Rightarrow> 2 * length bs + 1)"
    by (cases bs) auto
qed

text \<open>
  Sequencing of steps that can fail: the first error ends the computation, as a raised
  exception does.
\<close>

definition and_then :: "error + 'a \<Rightarrow> ('a \<Rightarrow> error + 'b) \<Rightarrow> error + 'b" where
  "and_then m f = (case m of Inl e \<Rightarrow> Inl e | Inr x \<Rightarrow> f x)"

fun traverse :: "('a \<Rightarrow> error + 'b) \<Rightarrow> 'a list \<Rightarrow> error + 'b list" where
  "traverse f [] = Inr []"
| "traverse f (x # xs) =
     and_then (f x) (\<lambda>y. and_then (traverse f xs) (\<lambda>ys. Inr (y # ys)))"

subsection \<open>Decoding to a shape\<close>

text \<open>
  Modelled from the spec: \<^verbatim>\<open>rlp.decode_to\<close> at the field types. An integer is a byte
  string in canonical form (no leading zero, and no longer than its type holds); a
  fixed-length byte type takes a byte string of exactly that length; a list where a byte
  string is expected, or the reverse, is the wrong element type.
\<close>

definition canonical_int :: "Bytes \<Rightarrow> bool" where
  "canonical_int bs = (case bs of [] \<Rightarrow> True | b # _ \<Rightarrow> b \<noteq> 0)"

fun decode_to_Uint :: "RLP \<Rightarrow> error + Uint" where
  "decode_to_Uint (RBytes bs) =
     (if canonical_int bs then Inr (from_be_bytes bs) else Inl InvalidBlock)"
| "decode_to_Uint (RList _) = Inl InvalidBlock"

fun decode_to_U64 :: "RLP \<Rightarrow> error + U64" where
  "decode_to_U64 (RBytes bs) =
     (if length bs \<le> 8 \<and> canonical_int bs then Inr (of_nat (from_be_bytes bs))
      else Inl InvalidBlock)"
| "decode_to_U64 (RList _) = Inl InvalidBlock"

fun decode_to_U256 :: "RLP \<Rightarrow> error + U256" where
  "decode_to_U256 (RBytes bs) =
     (if length bs \<le> 32 \<and> canonical_int bs then Inr (of_nat (from_be_bytes bs))
      else Inl InvalidBlock)"
| "decode_to_U256 (RList _) = Inl InvalidBlock"

fun decode_to_Bytes :: "RLP \<Rightarrow> error + Bytes" where
  "decode_to_Bytes (RBytes bs) = Inr bs"
| "decode_to_Bytes (RList _) = Inl InvalidBlock"

fun decode_to_Bytes20 :: "RLP \<Rightarrow> error + Bytes20" where
  "decode_to_Bytes20 (RBytes bs) =
     (if length bs = 20 then new_Bytes20 bs else Inl InvalidBlock)"
| "decode_to_Bytes20 (RList _) = Inl InvalidBlock"

fun decode_to_Bytes32 :: "RLP \<Rightarrow> error + Bytes32" where
  "decode_to_Bytes32 (RBytes bs) =
     (if length bs = 32 then new_Bytes32 bs else Inl InvalidBlock)"
| "decode_to_Bytes32 (RList _) = Inl InvalidBlock"

fun decode_to_Bytes0_or_Address :: "RLP \<Rightarrow> error + Bytes0_or_Address" where
  "decode_to_Bytes0_or_Address (RBytes bs) =
     (if length bs = 0 then Inr Bytes0
      else if length bs = 20 then and_then (new_Bytes20 bs) (\<lambda>a. Inr (Address a))
      else Inl InvalidBlock)"
| "decode_to_Bytes0_or_Address (RList _) = Inl InvalidBlock"

text \<open>A tuple of any length (\<^verbatim>\<open>Tuple[T, ...]\<close>): every item decoded to \<open>T\<close>.\<close>

fun decode_to_tuple :: "(RLP \<Rightarrow> error + 'a) \<Rightarrow> RLP \<Rightarrow> error + 'a list" where
  "decode_to_tuple f (RList items) = traverse f items"
| "decode_to_tuple f (RBytes _) = Inl InvalidBlock"

text \<open>An entry of an access list: \<^verbatim>\<open>Tuple[Address, Tuple[Bytes32, ...]]\<close>.\<close>

fun decode_to_access_entry :: "RLP \<Rightarrow> error + (Address \<times> Bytes32 list)" where
  "decode_to_access_entry (RList [a, ks]) =
     and_then (decode_to_Bytes20 a) (\<lambda>address.
     and_then (decode_to_tuple decode_to_Bytes32 ks) (\<lambda>keys.
     Inr (address, keys)))"
| "decode_to_access_entry _ = Inl InvalidBlock"

definition decode_to_access_list :: "RLP \<Rightarrow> error + access_list_type" where
  "decode_to_access_list = decode_to_tuple decode_to_access_entry"

text \<open>
  Modelled from the spec: \<^verbatim>\<open>rlp.decode_to\<close> at the three typed variants. The payload
  is a list with exactly the fields of the variant, in the declared order, each decoded to
  the type of its field.
\<close>

fun decode_to_AccessListTransaction :: "RLP \<Rightarrow> error + AccessListTransaction" where
  "decode_to_AccessListTransaction (RList items) =
     (case items of
        [x1, x2, x3, x4, x5, x6, x7, x8, x9, x10, x11] \<Rightarrow>
          and_then (decode_to_U64 x1) (\<lambda>chain_id'.
          and_then (decode_to_U256 x2) (\<lambda>nonce'.
          and_then (decode_to_Uint x3) (\<lambda>gas_price'.
          and_then (decode_to_Uint x4) (\<lambda>gas'.
          and_then (decode_to_Bytes0_or_Address x5) (\<lambda>to'.
          and_then (decode_to_U256 x6) (\<lambda>value'.
          and_then (decode_to_Bytes x7) (\<lambda>data'.
          and_then (decode_to_access_list x8) (\<lambda>access_list'.
          and_then (decode_to_U256 x9) (\<lambda>y_parity'.
          and_then (decode_to_U256 x10) (\<lambda>r'.
          and_then (decode_to_U256 x11) (\<lambda>s'.
          Inr \<lparr>AccessListTransaction.chain_id = chain_id',
               AccessListTransaction.nonce = nonce',
               AccessListTransaction.gas_price = gas_price',
               AccessListTransaction.gas = gas',
               AccessListTransaction.to = to',
               AccessListTransaction.value = value',
               AccessListTransaction.data = data',
               AccessListTransaction.access_list = access_list',
               AccessListTransaction.y_parity = y_parity',
               AccessListTransaction.r = r',
               AccessListTransaction.s = s'\<rparr>)))))))))))
      | _ \<Rightarrow> Inl InvalidBlock)"
| "decode_to_AccessListTransaction (RBytes _) = Inl InvalidBlock"

fun decode_to_FeeMarketTransaction :: "RLP \<Rightarrow> error + FeeMarketTransaction" where
  "decode_to_FeeMarketTransaction (RList items) =
     (case items of
        [x1, x2, x3, x4, x5, x6, x7, x8, x9, x10, x11, x12] \<Rightarrow>
          and_then (decode_to_U64 x1) (\<lambda>chain_id'.
          and_then (decode_to_U256 x2) (\<lambda>nonce'.
          and_then (decode_to_Uint x3) (\<lambda>max_priority_fee_per_gas'.
          and_then (decode_to_Uint x4) (\<lambda>max_fee_per_gas'.
          and_then (decode_to_Uint x5) (\<lambda>gas'.
          and_then (decode_to_Bytes0_or_Address x6) (\<lambda>to'.
          and_then (decode_to_U256 x7) (\<lambda>value'.
          and_then (decode_to_Bytes x8) (\<lambda>data'.
          and_then (decode_to_access_list x9) (\<lambda>access_list'.
          and_then (decode_to_U256 x10) (\<lambda>y_parity'.
          and_then (decode_to_U256 x11) (\<lambda>r'.
          and_then (decode_to_U256 x12) (\<lambda>s'.
          Inr \<lparr>FeeMarketTransaction.chain_id = chain_id',
               FeeMarketTransaction.nonce = nonce',
               FeeMarketTransaction.max_priority_fee_per_gas = max_priority_fee_per_gas',
               FeeMarketTransaction.max_fee_per_gas = max_fee_per_gas',
               FeeMarketTransaction.gas = gas',
               FeeMarketTransaction.to = to',
               FeeMarketTransaction.value = value',
               FeeMarketTransaction.data = data',
               FeeMarketTransaction.access_list = access_list',
               FeeMarketTransaction.y_parity = y_parity',
               FeeMarketTransaction.r = r',
               FeeMarketTransaction.s = s'\<rparr>))))))))))))
      | _ \<Rightarrow> Inl InvalidBlock)"
| "decode_to_FeeMarketTransaction (RBytes _) = Inl InvalidBlock"

fun decode_to_BlobTransaction :: "RLP \<Rightarrow> error + BlobTransaction" where
  "decode_to_BlobTransaction (RList items) =
     (case items of
        [x1, x2, x3, x4, x5, x6, x7, x8, x9, x10, x11, x12, x13, x14] \<Rightarrow>
          and_then (decode_to_U64 x1) (\<lambda>chain_id'.
          and_then (decode_to_U256 x2) (\<lambda>nonce'.
          and_then (decode_to_Uint x3) (\<lambda>max_priority_fee_per_gas'.
          and_then (decode_to_Uint x4) (\<lambda>max_fee_per_gas'.
          and_then (decode_to_Uint x5) (\<lambda>gas'.
          and_then (decode_to_Bytes20 x6) (\<lambda>to'.
          and_then (decode_to_U256 x7) (\<lambda>value'.
          and_then (decode_to_Bytes x8) (\<lambda>data'.
          and_then (decode_to_access_list x9) (\<lambda>access_list'.
          and_then (decode_to_U256 x10) (\<lambda>max_fee_per_blob_gas'.
          and_then ((decode_to_tuple decode_to_Bytes32) x11) (\<lambda>blob_versioned_hashes'.
          and_then (decode_to_U256 x12) (\<lambda>y_parity'.
          and_then (decode_to_U256 x13) (\<lambda>r'.
          and_then (decode_to_U256 x14) (\<lambda>s'.
          Inr \<lparr>BlobTransaction.chain_id = chain_id',
               BlobTransaction.nonce = nonce',
               BlobTransaction.max_priority_fee_per_gas = max_priority_fee_per_gas',
               BlobTransaction.max_fee_per_gas = max_fee_per_gas',
               BlobTransaction.gas = gas',
               BlobTransaction.to = to',
               BlobTransaction.value = value',
               BlobTransaction.data = data',
               BlobTransaction.access_list = access_list',
               BlobTransaction.max_fee_per_blob_gas = max_fee_per_blob_gas',
               BlobTransaction.blob_versioned_hashes = blob_versioned_hashes',
               BlobTransaction.y_parity = y_parity',
               BlobTransaction.r = r',
               BlobTransaction.s = s'\<rparr>))))))))))))))
      | _ \<Rightarrow> Inl InvalidBlock)"
| "decode_to_BlobTransaction (RBytes _) = Inl InvalidBlock"

text \<open>Modelled from the spec: \<^verbatim>\<open>rlp.decode_to(shape, encoded_data)\<close>.\<close>

definition decode_to :: "(RLP \<Rightarrow> error + 'a) \<Rightarrow> Bytes \<Rightarrow> error + 'a" where
  "decode_to shape encoded_data = and_then (rlp_decode encoded_data) shape"

subsection \<open>Encoding a record\<close>

text \<open>
  Modelled from the spec: what \<^verbatim>\<open>rlp.encode\<close> is given for a value of each field type.
  An integer enters as its shortest big-endian bytes, a fixed-length byte value as its
  bytes, the empty marker as the empty byte string, a tuple as the list of its items, and
  a record as the list of its fields in the declared order.
\<close>

definition rlp_of_Uint :: "Uint \<Rightarrow> RLP" where
  "rlp_of_Uint n = RBytes (to_be_bytes n)"

definition rlp_of_U64 :: "U64 \<Rightarrow> RLP" where
  "rlp_of_U64 n = RBytes (to_be_bytes (unat n))"

definition rlp_of_U256 :: "U256 \<Rightarrow> RLP" where
  "rlp_of_U256 n = RBytes (to_be_bytes (unat n))"

definition rlp_of_Bytes20 :: "Bytes20 \<Rightarrow> RLP" where
  "rlp_of_Bytes20 a = RBytes (Rep_list20 a)"

definition rlp_of_Bytes32 :: "Bytes32 \<Rightarrow> RLP" where
  "rlp_of_Bytes32 h = RBytes (Rep_list32 h)"

fun rlp_of_Bytes0_or_Address :: "Bytes0_or_Address \<Rightarrow> RLP" where
  "rlp_of_Bytes0_or_Address Bytes0 = RBytes []"
| "rlp_of_Bytes0_or_Address (Address a) = rlp_of_Bytes20 a"

definition rlp_of_hashes :: "Bytes32 list \<Rightarrow> RLP" where
  "rlp_of_hashes hs = RList (map rlp_of_Bytes32 hs)"

fun rlp_of_access_entry :: "Address \<times> Bytes32 list \<Rightarrow> RLP" where
  "rlp_of_access_entry (address, keys) = RList [rlp_of_Bytes20 address, rlp_of_hashes keys]"

definition rlp_of_access_list :: "access_list_type \<Rightarrow> RLP" where
  "rlp_of_access_list entries = RList (map rlp_of_access_entry entries)"

definition rlp_of_LegacyTransaction :: "LegacyTransaction \<Rightarrow> RLP" where
  "rlp_of_LegacyTransaction tx = RList
     [rlp_of_U256 (LegacyTransaction.nonce tx),
      rlp_of_Uint (LegacyTransaction.gas_price tx),
      rlp_of_Uint (LegacyTransaction.gas tx),
      rlp_of_Bytes0_or_Address (LegacyTransaction.to tx),
      rlp_of_U256 (LegacyTransaction.value tx),
      RBytes (LegacyTransaction.data tx),
      rlp_of_U256 (LegacyTransaction.v tx),
      rlp_of_U256 (LegacyTransaction.r tx),
      rlp_of_U256 (LegacyTransaction.s tx)]"

definition rlp_of_AccessListTransaction :: "AccessListTransaction \<Rightarrow> RLP" where
  "rlp_of_AccessListTransaction tx = RList
     [rlp_of_U64 (AccessListTransaction.chain_id tx),
      rlp_of_U256 (AccessListTransaction.nonce tx),
      rlp_of_Uint (AccessListTransaction.gas_price tx),
      rlp_of_Uint (AccessListTransaction.gas tx),
      rlp_of_Bytes0_or_Address (AccessListTransaction.to tx),
      rlp_of_U256 (AccessListTransaction.value tx),
      RBytes (AccessListTransaction.data tx),
      rlp_of_access_list (AccessListTransaction.access_list tx),
      rlp_of_U256 (AccessListTransaction.y_parity tx),
      rlp_of_U256 (AccessListTransaction.r tx),
      rlp_of_U256 (AccessListTransaction.s tx)]"

definition rlp_of_FeeMarketTransaction :: "FeeMarketTransaction \<Rightarrow> RLP" where
  "rlp_of_FeeMarketTransaction tx = RList
     [rlp_of_U64 (FeeMarketTransaction.chain_id tx),
      rlp_of_U256 (FeeMarketTransaction.nonce tx),
      rlp_of_Uint (FeeMarketTransaction.max_priority_fee_per_gas tx),
      rlp_of_Uint (FeeMarketTransaction.max_fee_per_gas tx),
      rlp_of_Uint (FeeMarketTransaction.gas tx),
      rlp_of_Bytes0_or_Address (FeeMarketTransaction.to tx),
      rlp_of_U256 (FeeMarketTransaction.value tx),
      RBytes (FeeMarketTransaction.data tx),
      rlp_of_access_list (FeeMarketTransaction.access_list tx),
      rlp_of_U256 (FeeMarketTransaction.y_parity tx),
      rlp_of_U256 (FeeMarketTransaction.r tx),
      rlp_of_U256 (FeeMarketTransaction.s tx)]"

definition rlp_of_BlobTransaction :: "BlobTransaction \<Rightarrow> RLP" where
  "rlp_of_BlobTransaction tx = RList
     [rlp_of_U64 (BlobTransaction.chain_id tx),
      rlp_of_U256 (BlobTransaction.nonce tx),
      rlp_of_Uint (BlobTransaction.max_priority_fee_per_gas tx),
      rlp_of_Uint (BlobTransaction.max_fee_per_gas tx),
      rlp_of_Uint (BlobTransaction.gas tx),
      rlp_of_Bytes20 (BlobTransaction.to tx),
      rlp_of_U256 (BlobTransaction.value tx),
      RBytes (BlobTransaction.data tx),
      rlp_of_access_list (BlobTransaction.access_list tx),
      rlp_of_U256 (BlobTransaction.max_fee_per_blob_gas tx),
      rlp_of_hashes (BlobTransaction.blob_versioned_hashes tx),
      rlp_of_U256 (BlobTransaction.y_parity tx),
      rlp_of_U256 (BlobTransaction.r tx),
      rlp_of_U256 (BlobTransaction.s tx)]"

section \<open>The envelope codec\<close>

text \<open>The text Python prints for the class of an object (\<^verbatim>\<open>type(tx)\<close> in an f-string).\<close>

fun type_repr :: "pyobj \<Rightarrow> string" where
  "type_repr (PyBytes _) = ''<class 'bytes'>''"
| "type_repr (PyTx (Legacy _)) = ''<class 'ethereum.cancun.transactions.LegacyTransaction'>''"
| "type_repr (PyTx (AccessList _)) =
     ''<class 'ethereum.cancun.transactions.AccessListTransaction'>''"
| "type_repr (PyTx (FeeMarket _)) =
     ''<class 'ethereum.cancun.transactions.FeeMarketTransaction'>''"
| "type_repr (PyTx (Blob _)) = ''<class 'ethereum.cancun.transactions.BlobTransaction'>''"
| "type_repr PyNone = ''<class 'NoneType'>''"
| "type_repr (PyInt _) = ''<class 'int'>''"
| "type_repr (PyStr _) = ''<class 'str'>''"

text \<open>
  \<^verbatim>\<open>encode_transaction\<close>: a legacy transaction is returned as it is; the three typed
  variants become the type byte followed by \<^verbatim>\<open>rlp.encode(tx)\<close>; any other object
  raises a plain \<^verbatim>\<open>Exception\<close>.
\<close>

fun encode_transaction :: "pyobj \<Rightarrow> error + pyobj" where
  "encode_transaction (PyTx (Legacy tx)) = Inr (PyTx (Legacy tx))"
| "encode_transaction (PyTx (AccessList tx)) =
     Inr (PyBytes (0x01 # rlp_encode (rlp_of_AccessListTransaction tx)))"
| "encode_transaction (PyTx (FeeMarket tx)) =
     Inr (PyBytes (0x02 # rlp_encode (rlp_of_FeeMarketTransaction tx)))"
| "encode_transaction (PyTx (Blob tx)) =
     Inr (PyBytes (0x03 # rlp_encode (rlp_of_BlobTransaction tx)))"
| "encode_transaction tx =
     Inl (Exception (''Unable to encode transaction of type '' @ type_repr tx))"

text \<open>
  \<^verbatim>\<open>decode_transaction\<close>: a byte string is dispatched on its first byte (\<^verbatim>\<open>tx[0]\<close>,
  which raises \<^verbatim>\<open>IndexError\<close> on the empty byte string) and the rest (\<^verbatim>\<open>tx[1:]\<close>) is
  decoded to the variant; any other object is returned as it is.
\<close>

fun decode_transaction :: "pyobj \<Rightarrow> error + pyobj" where
  "decode_transaction (PyBytes tx) =
     (case tx of
        [] \<Rightarrow> Inl IndexError
      | b # rest \<Rightarrow>
          if b = 1 then
            and_then (decode_to decode_to_AccessListTransaction rest)
              (\<lambda>t. Inr (PyTx (AccessList t)))
          else if b = 2 then
            and_then (decode_to decode_to_FeeMarketTransaction rest)
              (\<lambda>t. Inr (PyTx (FeeMarket t)))
          else if b = 3 then
            and_then (decode_to decode_to_BlobTransaction rest)
              (\<lambda>t. Inr (PyTx (Blob t)))
          else Inl InvalidBlock)"
| "decode_transaction tx = Inr tx"

subsection \<open>Blob transactions as Python builds them\<close>

text \<open>
  \<^verbatim>\<open>BlobTransaction\<close> is a \<^verbatim>\<open>@dataclass\<close>: the \<^verbatim>\<open>__init__\<close> that the decorator
  generates stores the object it is given for each field and compares none with the
  annotation of the field. The annotation \<^verbatim>\<open>to: Address\<close> binds a type checker and not
  the constructor, so an instance can hold the empty marker in \<^verbatim>\<open>to\<close>.
  \<open>BlobTransaction_object\<close> is an instance as Python holds it, with either kind of object
  in \<^verbatim>\<open>to\<close>; the record \<open>BlobTransaction\<close> is the instance whose \<^verbatim>\<open>to\<close> has the
  declared type.
\<close>

record BlobTransaction_object =
  chain_id :: U64
  nonce :: U256
  max_priority_fee_per_gas :: Uint
  max_fee_per_gas :: Uint
  gas :: Uint
  to :: Bytes0_or_Address
  "value" :: U256
  data :: Bytes
  access_list :: access_list_type
  max_fee_per_blob_gas :: U256
  blob_versioned_hashes :: "VersionedHash list"
  y_parity :: U256
  r :: U256
  s :: U256





section \<open>Concrete transactions\<close>

text \<open>The address of twenty zero bytes, and the hash of thirty-two zero bytes.\<close>

lift_definition zeros20 :: "'a::zero list20" is "replicate 20 0"
  by simp

lift_definition zeros32 :: "'a::zero list32" is "replicate 32 0"
  by simp

definition zero_address :: Address where
  "zero_address = zeros20"

definition zero_hash :: Bytes32 where
  "zero_hash = zeros32"

text \<open>
  The concrete scenario of the testable properties: a fee-market transaction, the
  items \<^verbatim>\<open>rlp.encode\<close> makes of its fields, and its envelope.
\<close>

definition scenario_tx :: FeeMarketTransaction where
  "scenario_tx =
     \<lparr>FeeMarketTransaction.chain_id = 1,
      FeeMarketTransaction.nonce = 0,
      FeeMarketTransaction.max_priority_fee_per_gas = 1,
      FeeMarketTransaction.max_fee_per_gas = 100,
      FeeMarketTransaction.gas = 21000,
      FeeMarketTransaction.to = Address zero_address,
      FeeMarketTransaction.value = 0,
      FeeMarketTransaction.data = [],
      FeeMarketTransaction.access_list = [],
      FeeMarketTransaction.y_parity = 0,
      FeeMarketTransaction.r = 1,
      FeeMarketTransaction.s = 1\<rparr>"

definition scenario_fields :: "RLP list" where
  "scenario_fields =
     [RBytes [1], RBytes [], RBytes [1], RBytes [100], RBytes [0x52, 0x08],
      RBytes [0, 0, 0, 0, 0, 0, 0, 0, 0, 0, 0, 0, 0, 0, 0, 0, 0, 0, 0, 0],
      RBytes [], RBytes [], RList [], RBytes [], RBytes [1], RBytes [1]]"

definition scenario_envelope :: Bytes where
  "scenario_envelope =
     [0x02, 0xE2, 0x01, 0x80, 0x01, 0x64, 0x82, 0x52, 0x08, 0x94,
      0, 0, 0, 0, 0, 0, 0, 0, 0, 0, 0, 0, 0, 0, 0, 0, 0, 0, 0, 0,
      0x80, 0x80, 0xC0, 0x80, 0x01, 0x01]"

text \<open>One transaction of each of the other variants.\<close>

definition example_legacy :: LegacyTransaction where
  "example_legacy =
     \<lparr>LegacyTransaction.nonce = 0,
      LegacyTransaction.gas_price = 1,
      LegacyTransaction.gas = 21000,
      LegacyTransaction.to = Bytes0,
      LegacyTransaction.value = 0,
      LegacyTransaction.data = [],
      LegacyTransaction.v = 27,
      LegacyTransaction.r = 1,
      LegacyTransaction.s = 1\<rparr>"

definition example_access_list :: AccessListTransaction where
  "example_access_list =
     \<lparr>AccessListTransaction.chain_id = 1,
      AccessListTransaction.nonce = 0,
      AccessListTransaction.gas_price = 1,
      AccessListTransaction.gas = 21000,
      AccessListTransaction.to = Bytes0,
      AccessListTransaction.value = 0,
      AccessListTransaction.data = [],
      AccessListTransaction.access_list = [(zero_address, [zero_hash])],
      AccessListTransaction.y_parity = 0,
      AccessListTransaction.r = 1,
      AccessListTransaction.s = 1\<rparr>"

definition example_blob :: BlobTransaction where
  "example_blob =
     \<lparr>BlobTransaction.chain_id = 1,
      BlobTransaction.nonce = 7,
      BlobTransaction.max_priority_fee_per_gas = 1,
      BlobTransaction.max_fee_per_gas = 100,
      BlobTransaction.gas = 21000,
      BlobTransaction.to = zero_address,
      BlobTransaction.value = 0,
      BlobTransaction.data = [0xCA, 0xFE],
      BlobTransaction.access_list = [(zero_address, [zero_hash])],
      BlobTransaction.max_fee_per_blob_gas = 1,
      BlobTransaction.blob_versioned_hashes = [zero_hash],
      BlobTransaction.y_parity = 1,
      BlobTransaction.r = 1,
      BlobTransaction.s = 1\<rparr>"



section \<open>Properties of the codec\<close>

declare to_be_bytes.simps [simp del]

declare rlp_decode.simps [simp del]

declare decode_joined_encodings.simps [simp del]

lemma and_then_Inr [simp]: "and_then (Inr x) f = f x"
  by (simp add: and_then_def)

lemma and_then_Inl [simp]: "and_then (Inl e) f = Inl e"
  by (simp add: and_then_def)

subsection \<open>Big-endian bytes\<close>

lemma unat_of_nat_byte: "n < 256 \<Longrightarrow> unat (of_nat n :: byte) = n"
  by (simp add: unat_of_nat)

lemma from_be_bytes_snoc: "from_be_bytes (bs @ [b]) = from_be_bytes bs * 256 + unat b"
  by (simp add: from_be_bytes_def)

lemma to_be_bytes_0: "to_be_bytes 0 = []"
  by (simp add: to_be_bytes.simps [of 0])

lemma to_be_bytes_eq_Nil: "to_be_bytes n = [] \<longleftrightarrow> n = 0"
  by (simp add: to_be_bytes.simps [of n])

lemma from_be_bytes_to_be_bytes: "from_be_bytes (to_be_bytes n) = n"
proof (induction n rule: to_be_bytes.induct)
  case (1 n)
  show ?case
  proof (cases "n = 0")
    case True
    then show ?thesis by (simp add: to_be_bytes_0 from_be_bytes_def)
  next
    case False
    have "unat (of_nat (n mod 256) :: byte) = n mod 256"
      by (simp add: unat_of_nat_byte)
    with False 1 show ?thesis
      by (simp add: to_be_bytes.simps [of n] from_be_bytes_snoc)
  qed
qed

lemma hd_to_be_bytes: "n \<noteq> 0 \<Longrightarrow> hd (to_be_bytes n) \<noteq> 0"
proof (induction n rule: to_be_bytes.induct)
  case (1 n)
  show ?case
  proof (cases "n div 256 = 0")
    case True
    with 1(2) have small: "n < 256" and pos: "n \<noteq> 0" by auto
    then have "unat (of_nat n :: byte) = n" by (simp add: unat_of_nat_byte)
    with pos have "(of_nat n :: byte) \<noteq> 0" by (metis unat_0)
    with True small pos show ?thesis
      by (simp add: to_be_bytes.simps [of n] to_be_bytes_0)
  next
    case False
    with 1 have "hd (to_be_bytes (n div 256)) \<noteq> 0" by auto
    moreover from False have "to_be_bytes (n div 256) \<noteq> []"
      by (simp add: to_be_bytes_eq_Nil)
    ultimately show ?thesis using 1(2)
      by (simp add: to_be_bytes.simps [of n])
  qed
qed

lemma canonical_int_to_be_bytes: "canonical_int (to_be_bytes n)"
proof (cases "n = 0")
  case True
  then show ?thesis by (simp add: canonical_int_def to_be_bytes_0)
next
  case False
  with hd_to_be_bytes [of n] to_be_bytes_eq_Nil [of n] show ?thesis
    by (cases "to_be_bytes n") (auto simp: canonical_int_def)
qed

lemma length_to_be_bytes: "n < 256 ^ k \<Longrightarrow> length (to_be_bytes n) \<le> k"
proof (induction n arbitrary: k rule: to_be_bytes.induct)
  case (1 n)
  show ?case
  proof (cases "n = 0")
    case True
    then show ?thesis by (simp add: to_be_bytes_0)
  next
    case False
    with 1(2) obtain j where k: "k = Suc j" by (cases k) auto
    with 1(2) have "n div 256 < 256 ^ j"
      by (simp add: less_mult_imp_div_less mult.commute)
    with 1(1) [OF False] have "length (to_be_bytes (n div 256)) \<le> j" by blast
    with False k show ?thesis by (simp add: to_be_bytes.simps [of n])
  qed
qed

lemma length_to_be_bytes_8: "n < 2 ^ 64 \<Longrightarrow> length (to_be_bytes n) \<le> 8"
  using length_to_be_bytes [of n 8] by simp

lemma length_to_be_bytes_pos: "0 < n \<Longrightarrow> 0 < length (to_be_bytes n)"
  by (simp add: to_be_bytes_eq_Nil)

subsection \<open>The prefix is read back\<close>

lemma long_length_to_be_bytes:
  assumes "56 \<le> len"
  shows "long_length (length (to_be_bytes len)) (to_be_bytes len @ rest) = Inr len"
proof -
  from assms have "to_be_bytes len \<noteq> []" and "hd (to_be_bytes len) \<noteq> 0"
    using hd_to_be_bytes [of len] by (simp_all add: to_be_bytes_eq_Nil)
  then obtain c cs where c: "to_be_bytes len = c # cs" "c \<noteq> 0"
    by (cases "to_be_bytes len") auto
  have "from_be_bytes (take (length (to_be_bytes len)) (to_be_bytes len @ rest)) = len"
    by (simp add: from_be_bytes_to_be_bytes)
  with c assms show ?thesis
    by (simp add: long_length_def)
qed

lemma decode_length_encode_length:
  assumes "len < 2 ^ 64" and "offset = 0x80 \<or> offset = 0xC0"
  shows "decode_length (encode_length len offset @ rest)
           = Inr (offset = 0xC0, length (encode_length len offset), len)"
proof (cases "len < 56")
  case True
  with assms(2) have "unat (of_nat (offset + len) :: byte) = offset + len"
    by (intro unat_of_nat_byte) auto
  with True assms(2) show ?thesis
    by (auto simp: encode_length_def decode_length_def)
next
  case False
  let ?bl = "to_be_bytes len"
  from assms(1) have le: "length ?bl \<le> 8" by (rule length_to_be_bytes_8)
  from False have pos: "0 < length ?bl" by (intro length_to_be_bytes_pos) simp
  from le assms(2)
  have u: "unat (of_nat (offset + 55 + length ?bl) :: byte) = offset + 55 + length ?bl"
    by (intro unat_of_nat_byte) auto
  from False have ll: "long_length (length ?bl) (?bl @ rest) = Inr len"
    by (intro long_length_to_be_bytes) simp
  from assms(2) show ?thesis
  proof
    assume "offset = 0x80"
    with False u le pos ll show ?thesis
      by (simp add: encode_length_def decode_length_def)
  next
    assume "offset = 0xC0"
    with False u le pos ll show ?thesis
      by (simp add: encode_length_def decode_length_def)
  qed
qed

lemma decode_length_encode_bytes:
  assumes "length raw < 2 ^ 64"
  shows "\<exists>off. decode_length (encode_bytes raw @ rest) = Inr (False, off, length raw)
           \<and> off + length raw = length (encode_bytes raw)
           \<and> drop off (encode_bytes raw) = raw
           \<and> \<not> (off = 1 \<and> length raw = 1 \<and> encode_bytes raw ! 1 < 0x80)"
proof (cases "length raw = 1 \<and> hd raw < 0x80")
  case True
  then obtain b where raw: "raw = [b]" "b < 0x80"
    by (cases raw) auto
  then have "unat b < 0x80" by (simp add: word_less_nat_alt)
  with raw show ?thesis
    by (simp add: encode_bytes_def decode_length_def)
next
  case False
  let ?p = "encode_length (length raw) 0x80"
  from assms have "decode_length (?p @ raw @ rest) = Inr (False, length ?p, length raw)"
    using decode_length_encode_length [of "length raw" "0x80" "raw @ rest"] by simp
  moreover have "length ?p = 1 \<Longrightarrow> length raw = 1 \<Longrightarrow> \<not> (?p @ raw) ! 1 < 0x80"
  proof -
    assume p: "length ?p = 1" and "length raw = 1"
    then obtain b where "raw = [b]" by (cases raw) auto
    with False p show ?thesis
      by (simp add: nth_append)
  qed
  ultimately show ?thesis using False
    by (auto simp: encode_bytes_def)
qed

lemma rlp_encode_RList:
  "rlp_encode (RList items) =
     encode_length (length (concat (map rlp_encode items))) 0xC0 @ concat (map rlp_encode items)"
  by (simp add: Let_def)

declare rlp_encode.simps(2) [simp del]

lemma length_encode_length_pos: "0 < length (encode_length len offset)"
  by (simp add: encode_length_def)

lemma rlp_encode_neq_Nil: "rlp_encode x \<noteq> []"
proof (cases x)
  case (RBytes raw)
  then show ?thesis
    using length_encode_length_pos [of "length raw" "0x80"]
    by (auto simp: encode_bytes_def)
next
  case (RList items)
  then show ?thesis
    using length_encode_length_pos [of "length (concat (map rlp_encode items))" "0xC0"]
    by (auto simp: rlp_encode_RList)
qed

lemma decode_length_rlp_encode:
  assumes "length (rlp_encode x) < 2 ^ 64"
  shows "\<exists>k off len. decode_length (rlp_encode x @ rest) = Inr (k, off, len)
           \<and> off + len = length (rlp_encode x)"
proof (cases x)
  case (RBytes raw)
  have "length raw \<le> length (encode_bytes raw)"
    by (simp add: encode_bytes_def)
  with assms RBytes have "length raw < 2 ^ 64" by simp
  from decode_length_encode_bytes [OF this, of rest] RBytes show ?thesis
    by auto
next
  case (RList items)
  let ?j = "concat (map rlp_encode items)"
  from assms RList have "length ?j < 2 ^ 64" by (simp add: rlp_encode_RList)
  from decode_length_encode_length [OF this, of "0xC0" "?j @ rest"] RList show ?thesis
    by (auto simp: rlp_encode_RList)
qed

subsection \<open>Decoding undoes encoding\<close>

lemma decode_joined_encodings_concat:
  assumes "\<And>x. x \<in> set items \<Longrightarrow> rlp_decode (rlp_encode x) = Inr x"
    and "\<And>x. x \<in> set items \<Longrightarrow> length (rlp_encode x) < 2 ^ 64"
  shows "decode_joined_encodings (concat (map rlp_encode items)) = Inr items"
  using assms
proof (induction items)
  case Nil
  show ?case by (simp add: decode_joined_encodings.simps [of "[]"])
next
  case (Cons x xs)
  let ?rest = "concat (map rlp_encode xs)"
  have "length (rlp_encode x) < 2 ^ 64" by (rule Cons.prems(2)) simp
  from decode_length_rlp_encode [OF this, of ?rest]
  obtain k off len where dl: "decode_length (rlp_encode x @ ?rest) = Inr (k, off, len)"
    and sum: "off + len = length (rlp_encode x)" by blast
  have x: "rlp_decode (rlp_encode x) = Inr x" by (simp add: Cons.prems(1))
  have xs: "decode_joined_encodings ?rest = Inr xs"
    by (rule Cons.IH) (use Cons.prems in auto)
  show ?case
    using dl sum x xs rlp_encode_neq_Nil [of x]
    by (simp add: decode_joined_encodings.simps [of "rlp_encode x @ ?rest"])
qed

lemma length_rlp_encode_member:
  "x \<in> set items \<Longrightarrow> length (rlp_encode x) \<le> length (concat (map rlp_encode items))"
  by (induction items) auto

lemma rlp_decode_rlp_encode:
  "length (rlp_encode x) < 2 ^ 64 \<Longrightarrow> rlp_decode (rlp_encode x) = Inr x"
proof (induction x)
  case (RBytes raw)
  have "length raw \<le> length (encode_bytes raw)"
    by (simp add: encode_bytes_def)
  with RBytes have "length raw < 2 ^ 64" by simp
  from decode_length_encode_bytes [OF this, of "[]"] show ?case
    by (auto simp: rlp_decode.simps [of "encode_bytes raw"])
next
  case (RList items)
  let ?j = "concat (map rlp_encode items)"
  let ?p = "encode_length (length ?j) 0xC0"
  from RList.prems have j: "length ?j < 2 ^ 64" by (simp add: rlp_encode_RList)
  have dl: "decode_length (?p @ ?j) = Inr (True, length ?p, length ?j)"
    using decode_length_encode_length [OF j, of "0xC0" "?j"] by simp
  have "decode_joined_encodings ?j = Inr items"
  proof (rule decode_joined_encodings_concat)
    fix x assume x: "x \<in> set items"
    with length_rlp_encode_member [OF x] j show b: "length (rlp_encode x) < 2 ^ 64" by simp
    with x show "rlp_decode (rlp_encode x) = Inr x" by (rule RList.IH)
  qed
  with dl show ?case
    by (simp add: rlp_encode_RList rlp_decode.simps [of "?p @ ?j"])
qed

subsection \<open>Every field is read back\<close>

lemma new_Bytes20_eq:
  "new_Bytes20 raw = (if length raw = 20 then Inr (Abs_list20 raw) else Inl ValueError)"
  by (simp add: new_Bytes20_def)

lemma new_Bytes32_eq:
  "new_Bytes32 raw = (if length raw = 32 then Inr (Abs_list32 raw) else Inl ValueError)"
  by (simp add: new_Bytes32_def)

lemma length_Rep_list20 [simp]: "length (Rep_list20 a) = 20"
  using Rep_list20 [of a] by simp

lemma length_Rep_list32 [simp]: "length (Rep_list32 h) = 32"
  using Rep_list32 [of h] by simp

lemma decode_to_Uint_rlp_of_Uint [simp]: "decode_to_Uint (rlp_of_Uint n) = Inr n"
  by (simp add: rlp_of_Uint_def canonical_int_to_be_bytes from_be_bytes_to_be_bytes)

lemma decode_to_U64_rlp_of_U64 [simp]: "decode_to_U64 (rlp_of_U64 n) = Inr n"
proof -
  have "unat n < 256 ^ 8" using unsigned_less [of n, where ?'a = nat] by simp
  then have "length (to_be_bytes (unat n)) \<le> 8" by (rule length_to_be_bytes)
  then show ?thesis
    by (simp add: rlp_of_U64_def canonical_int_to_be_bytes from_be_bytes_to_be_bytes)
qed

lemma decode_to_U256_rlp_of_U256 [simp]: "decode_to_U256 (rlp_of_U256 n) = Inr n"
proof -
  have "unat n < 256 ^ 32" using unsigned_less [of n, where ?'a = nat] by simp
  then have "length (to_be_bytes (unat n)) \<le> 32" by (rule length_to_be_bytes)
  then show ?thesis
    by (simp add: rlp_of_U256_def canonical_int_to_be_bytes from_be_bytes_to_be_bytes)
qed

lemma decode_to_Bytes20_rlp_of_Bytes20 [simp]: "decode_to_Bytes20 (rlp_of_Bytes20 a) = Inr a"
  by (simp add: rlp_of_Bytes20_def new_Bytes20_eq Rep_list20_inverse)

lemma decode_to_Bytes32_rlp_of_Bytes32 [simp]: "decode_to_Bytes32 (rlp_of_Bytes32 h) = Inr h"
  by (simp add: rlp_of_Bytes32_def new_Bytes32_eq Rep_list32_inverse)

lemma decode_to_Bytes0_or_Address_rlp [simp]:
  "decode_to_Bytes0_or_Address (rlp_of_Bytes0_or_Address t) = Inr t"
  by (cases t) (simp_all add: rlp_of_Bytes20_def new_Bytes20_eq Rep_list20_inverse)

lemma traverse_map:
  "(\<And>x. x \<in> set xs \<Longrightarrow> f (g x) = Inr x) \<Longrightarrow> traverse f (map g xs) = Inr xs"
  by (induction xs) simp_all

lemma decode_to_hashes [simp]:
  "decode_to_tuple decode_to_Bytes32 (rlp_of_hashes hs) = Inr hs"
  by (simp add: rlp_of_hashes_def traverse_map)

lemma decode_to_access_entry_rlp [simp]:
  "decode_to_access_entry (rlp_of_access_entry e) = Inr e"
  by (cases e) simp

lemma decode_to_access_list_rlp [simp]:
  "decode_to_access_list (rlp_of_access_list entries) = Inr entries"
  by (simp add: decode_to_access_list_def rlp_of_access_list_def traverse_map)

lemma decode_to_AccessListTransaction_rlp [simp]:
  "decode_to_AccessListTransaction (rlp_of_AccessListTransaction tx) = Inr tx"
  by (simp add: rlp_of_AccessListTransaction_def)

lemma decode_to_FeeMarketTransaction_rlp [simp]:
  "decode_to_FeeMarketTransaction (rlp_of_FeeMarketTransaction tx) = Inr tx"
  by (simp add: rlp_of_FeeMarketTransaction_def)

lemma decode_to_BlobTransaction_rlp [simp]:
  "decode_to_BlobTransaction (rlp_of_BlobTransaction tx) = Inr tx"
  by (simp add: rlp_of_BlobTransaction_def)

lemma decode_to_rlp_encode:
  "length (rlp_encode x) < 2 ^ 64 \<Longrightarrow> decode_to shape (rlp_encode x) = shape x"
  by (simp add: decode_to_def rlp_decode_rlp_encode)

subsection \<open>The concrete transactions\<close>

lemma replicate_20:
  "replicate 20 x = [x, x, x, x, x, x, x, x, x, x, x, x, x, x, x, x, x, x, x, x]"
  by (simp add: eval_nat_numeral)

lemma Rep_zero_address: "Rep_list20 zero_address = replicate 20 0"
  by (simp add: zero_address_def zeros20.rep_eq)

lemma Rep_zero_hash: "Rep_list32 zero_hash = replicate 32 0"
  by (simp add: zero_hash_def zeros32.rep_eq)

lemma to_be_bytes_numeral:
  "to_be_bytes (numeral k) = to_be_bytes (numeral k div 256) @ [of_nat (numeral k mod 256)]"
  by (simp add: to_be_bytes.simps [of "numeral k"])

lemma to_be_bytes_1: "to_be_bytes (Suc 0) = [1]"
  by (simp add: to_be_bytes.simps [of "Suc 0"] to_be_bytes_0)

lemma rlp_of_scenario_tx: "rlp_of_FeeMarketTransaction scenario_tx = RList scenario_fields"
  by (simp add: rlp_of_FeeMarketTransaction_def scenario_tx_def scenario_fields_def
      rlp_of_U64_def rlp_of_U256_def rlp_of_Uint_def rlp_of_Bytes20_def rlp_of_access_list_def
      Rep_zero_address replicate_20 to_be_bytes_numeral to_be_bytes_0 to_be_bytes_1)

lemma rlp_encode_scenario_fields: "0x02 # rlp_encode (RList scenario_fields) = scenario_envelope"
  by (simp add: scenario_fields_def rlp_encode_RList encode_bytes_def encode_length_def
      scenario_envelope_def)

lemma decode_scenario_envelope:
  "decode_transaction (PyBytes scenario_envelope) = Inr (PyTx (FeeMarket scenario_tx))"
proof -
  have e: "scenario_envelope = 0x02 # rlp_encode (rlp_of_FeeMarketTransaction scenario_tx)"
    by (simp add: rlp_of_scenario_tx rlp_encode_scenario_fields)
  have "length (0x02 # rlp_encode (rlp_of_FeeMarketTransaction scenario_tx)) = 36"
    unfolding e [symmetric] by (simp add: scenario_envelope_def)
  then have "length (rlp_encode (rlp_of_FeeMarketTransaction scenario_tx)) < 2 ^ 64"
    by simp
  then show ?thesis
    unfolding e by (simp add: decode_to_rlp_encode)
qed

lemma rlp_of_example_blob:
  "rlp_of_BlobTransaction example_blob =
     RList [RBytes [1], RBytes [7], RBytes [1], RBytes [100], RBytes [0x52, 0x08],
       RBytes (replicate 20 0), RBytes [], RBytes [0xCA, 0xFE],
       RList [RList [RBytes (replicate 20 0), RList [RBytes (replicate 32 0)]]],
       RBytes [1], RList [RBytes (replicate 32 0)], RBytes [1], RBytes [1], RBytes [1]]"
  by (simp add: rlp_of_BlobTransaction_def example_blob_def rlp_of_U64_def rlp_of_U256_def
      rlp_of_Uint_def rlp_of_Bytes20_def rlp_of_Bytes32_def rlp_of_hashes_def
      rlp_of_access_list_def Rep_zero_address Rep_zero_hash
      to_be_bytes_numeral to_be_bytes_0 to_be_bytes_1)

lemma length_rlp_encode_example_blob:
  "length (rlp_encode (rlp_of_BlobTransaction example_blob)) = 130"
  by (simp add: rlp_of_example_blob rlp_encode_RList encode_bytes_def encode_length_def
      to_be_bytes_numeral to_be_bytes_0 to_be_bytes_1)

lemma rlp_of_example_access_list:
  "rlp_of_AccessListTransaction example_access_list =
     RList [RBytes [1], RBytes [], RBytes [1], RBytes [0x52, 0x08], RBytes [], RBytes [],
       RBytes [],
       RList [RList [RBytes (replicate 20 0), RList [RBytes (replicate 32 0)]]],
       RBytes [], RBytes [1], RBytes [1]]"
  by (simp add: rlp_of_AccessListTransaction_def example_access_list_def rlp_of_U64_def
      rlp_of_U256_def rlp_of_Uint_def rlp_of_Bytes20_def rlp_of_Bytes32_def rlp_of_hashes_def
      rlp_of_access_list_def Rep_zero_address Rep_zero_hash
      to_be_bytes_numeral to_be_bytes_0 to_be_bytes_1)

lemma length_rlp_encode_example_access_list:
  "length (rlp_encode (rlp_of_AccessListTransaction example_access_list)) = 72"
  by (simp add: rlp_of_example_access_list rlp_encode_RList encode_bytes_def encode_length_def
      to_be_bytes_numeral to_be_bytes_0 to_be_bytes_1)




section \<open>The claims\<close>

text \<open>
  C1: encoding a transaction of any of the four variants and decoding the result gives
  the transaction back, equal in every field. The fields have the value ranges of their
  types; the one condition is that the envelope is a byte string Python can hold (shorter
  than \<open>2 ^ 64\<close> bytes).
\<close>

theorem decode_encode_transaction:
  assumes "\<forall>bs. encode_transaction (PyTx tx) = Inr (PyBytes bs) \<longrightarrow> length bs < 2 ^ 64"
  shows "and_then (encode_transaction (PyTx tx)) decode_transaction = Inr (PyTx tx)"
proof (cases tx)
  case (Legacy t)
  then show ?thesis by simp
next
  case (AccessList t)
  with assms have "length (rlp_encode (rlp_of_AccessListTransaction t)) < 2 ^ 64" by simp
  with AccessList show ?thesis by (simp add: decode_to_rlp_encode)
next
  case (FeeMarket t)
  with assms have "length (rlp_encode (rlp_of_FeeMarketTransaction t)) < 2 ^ 64" by simp
  with FeeMarket show ?thesis by (simp add: decode_to_rlp_encode)
next
  case (Blob t)
  with assms have "length (rlp_encode (rlp_of_BlobTransaction t)) < 2 ^ 64" by simp
  with Blob show ?thesis by (simp add: decode_to_rlp_encode)
qed

theorem decode_encode_transaction_witness:
  "length (rlp_encode (rlp_of_BlobTransaction example_blob)) = 130
   \<and> and_then (encode_transaction (PyTx (Blob example_blob))) decode_transaction
       = Inr (PyTx (Blob example_blob))
   \<and> and_then (encode_transaction (PyTx (AccessList example_access_list))) decode_transaction
       = Inr (PyTx (AccessList example_access_list))
   \<and> and_then (encode_transaction (PyTx (Legacy example_legacy))) decode_transaction
       = Inr (PyTx (Legacy example_legacy))"
proof -
  have blob: "length (rlp_encode (rlp_of_BlobTransaction example_blob)) = 130"
    by (rule length_rlp_encode_example_blob)
  have al: "length (rlp_encode (rlp_of_AccessListTransaction example_access_list)) = 72"
    by (rule length_rlp_encode_example_access_list)
  from blob al show ?thesis
    using decode_encode_transaction [of "Blob example_blob"]
      decode_encode_transaction [of "AccessList example_access_list"]
      decode_encode_transaction [of "Legacy example_legacy"]
    by simp
qed

text \<open>
  C2, as the code has it: \<^verbatim>\<open>encode_transaction\<close> returns a legacy transaction itself,
  the record unchanged. It makes no byte string of it: no list encoding is computed and no
  type byte is prepended.
\<close>

theorem encode_transaction_legacy:
  "encode_transaction (PyTx (Legacy tx)) = Inr (PyTx (Legacy tx))
   \<and> (\<forall>bs. encode_transaction (PyTx (Legacy tx)) \<noteq> Inr (PyBytes bs))"
  by simp

text \<open>
  C2, as it is stated, fails: the result for a legacy transaction is not the byte string
  of the list encoding of its nine fields.
\<close>

theorem encode_transaction_legacy_not_bytes:
  "encode_transaction (PyTx (Legacy example_legacy))
     \<noteq> Inr (PyBytes (rlp_encode (rlp_of_LegacyTransaction example_legacy)))"
  by simp

text \<open>
  C3: for an access-list, fee-market and blob transaction \<^verbatim>\<open>encode_transaction\<close>
  returns a byte string whose first byte is 0x01, 0x02 and 0x03, followed by the list
  encoding of the fields of the variant in the order of their declaration.
\<close>

theorem encode_transaction_typed:
  "encode_transaction (PyTx (AccessList a)) =
     Inr (PyBytes (0x01 # rlp_encode (RList
       [rlp_of_U64 (AccessListTransaction.chain_id a),
        rlp_of_U256 (AccessListTransaction.nonce a),
        rlp_of_Uint (AccessListTransaction.gas_price a),
        rlp_of_Uint (AccessListTransaction.gas a),
        rlp_of_Bytes0_or_Address (AccessListTransaction.to a),
        rlp_of_U256 (AccessListTransaction.value a),
        RBytes (AccessListTransaction.data a),
        rlp_of_access_list (AccessListTransaction.access_list a),
        rlp_of_U256 (AccessListTransaction.y_parity a),
        rlp_of_U256 (AccessListTransaction.r a),
        rlp_of_U256 (AccessListTransaction.s a)])))
   \<and> encode_transaction (PyTx (FeeMarket f)) =
     Inr (PyBytes (0x02 # rlp_encode (RList
       [rlp_of_U64 (FeeMarketTransaction.chain_id f),
        rlp_of_U256 (FeeMarketTransaction.nonce f),
        rlp_of_Uint (FeeMarketTransaction.max_priority_fee_per_gas f),
        rlp_of_Uint (FeeMarketTransaction.max_fee_per_gas f),
        rlp_of_Uint (FeeMarketTransaction.gas f),
        rlp_of_Bytes0_or_Address (FeeMarketTransaction.to f),
        rlp_of_U256 (FeeMarketTransaction.value f),
        RBytes (FeeMarketTransaction.data f),
        rlp_of_access_list (FeeMarketTransaction.access_list f),
        rlp_of_U256 (FeeMarketTransaction.y_parity f),
        rlp_of_U256 (FeeMarketTransaction.r f),
        rlp_of_U256 (FeeMarketTransaction.s f)])))
   \<and> encode_transaction (PyTx (Blob b)) =
     Inr (PyBytes (0x03 # rlp_encode (RList
       [rlp_of_U64 (BlobTransaction.chain_id b),
        rlp_of_U256 (BlobTransaction.nonce b),
        rlp_of_Uint (BlobTransaction.max_priority_fee_per_gas b),
        rlp_of_Uint (BlobTransaction.max_fee_per_gas b),
        rlp_of_Uint (BlobTransaction.gas b),
        rlp_of_Bytes20 (BlobTransaction.to b),
        rlp_of_U256 (BlobTransaction.value b),
        RBytes (BlobTransaction.data b),
        rlp_of_access_list (BlobTransaction.access_list b),
        rlp_of_U256 (BlobTransaction.max_fee_per_blob_gas b),
        rlp_of_hashes (BlobTransaction.blob_versioned_hashes b),
        rlp_of_U256 (BlobTransaction.y_parity b),
        rlp_of_U256 (BlobTransaction.r b),
        rlp_of_U256 (BlobTransaction.s b)])))"
  by (simp add: rlp_of_AccessListTransaction_def rlp_of_FeeMarketTransaction_def
      rlp_of_BlobTransaction_def)

text \<open>
  C4: \<^verbatim>\<open>decode_transaction\<close> on a byte string whose first byte is 0x00, or 0x04 or more,
  fails with \<^verbatim>\<open>InvalidBlock\<close>, whatever follows the first byte.
\<close>

theorem decode_transaction_unknown_type:
  "b = 0 \<or> 4 \<le> b \<Longrightarrow> decode_transaction (PyBytes (b # rest)) = Inl InvalidBlock"
  by (auto simp: word_le_nat_alt)

theorem decode_transaction_unknown_type_witness:
  "decode_transaction (PyBytes [0]) = Inl InvalidBlock
   \<and> decode_transaction (PyBytes [4, 0xC0]) = Inl InvalidBlock
   \<and> decode_transaction (PyBytes (0xFF # tl scenario_envelope)) = Inl InvalidBlock"
  using decode_transaction_unknown_type [of 0 "[]"]
    decode_transaction_unknown_type [of 4 "[0xC0]"]
    decode_transaction_unknown_type [of "0xFF" "tl scenario_envelope"]
  by simp



text \<open>
  C6: \<^verbatim>\<open>decode_transaction\<close> returns a legacy transaction that is handed to it as a record
  unchanged, and decoding the result again changes nothing.
\<close>

theorem decode_transaction_legacy:
  "decode_transaction (PyTx (Legacy tx)) = Inr (PyTx (Legacy tx))
   \<and> and_then (decode_transaction (PyTx (Legacy tx))) decode_transaction
       = decode_transaction (PyTx (Legacy tx))"
  by simp

text \<open>
  C7: \<^verbatim>\<open>encode_transaction\<close> fails on every object that is not one of the four variants,
  with a plain \<^verbatim>\<open>Exception\<close>; that is another error than the \<^verbatim>\<open>InvalidBlock\<close> which
  \<^verbatim>\<open>decode_transaction\<close> raises for a type byte it does not know.
\<close>

theorem encode_transaction_outside_union:
  assumes "\<forall>t. x \<noteq> PyTx t" and "b \<noteq> 1" and "b \<noteq> 2" and "b \<noteq> 3"
  shows "encode_transaction x
           = Inl (Exception (''Unable to encode transaction of type '' @ type_repr x))
         \<and> decode_transaction (PyBytes (b # rest)) = Inl InvalidBlock
         \<and> encode_transaction x \<noteq> Inl InvalidBlock"
  using assms by (cases x) simp_all

theorem encode_transaction_outside_union_witness:
  "encode_transaction PyNone
     = Inl (Exception ''Unable to encode transaction of type <class 'NoneType'>'')
   \<and> encode_transaction (PyBytes scenario_envelope)
     = Inl (Exception ''Unable to encode transaction of type <class 'bytes'>'')
   \<and> decode_transaction (PyBytes [0x7F]) = Inl InvalidBlock
   \<and> encode_transaction PyNone \<noteq> Inl InvalidBlock"
  using encode_transaction_outside_union [of PyNone "0x7F" "[]"]
    encode_transaction_outside_union [of "PyBytes scenario_envelope" "0x7F" "[]"]
  by simp

text \<open>
  C8, as the code has it: the fee-market transaction of the scenario has twelve fields.
  \<^verbatim>\<open>encode_transaction\<close> gives the byte 0x02 followed by the list encoding of those twelve
  fields in that order, and \<^verbatim>\<open>decode_transaction\<close> of that byte string gives the record
  back.
\<close>

theorem scenario_roundtrip:
  "encode_transaction (PyTx (FeeMarket scenario_tx))
     = Inr (PyBytes (0x02 # rlp_encode (RList scenario_fields)))
   \<and> length scenario_fields = 12
   \<and> 0x02 # rlp_encode (RList scenario_fields) = scenario_envelope
   \<and> decode_transaction (PyBytes (0x02 # rlp_encode (RList scenario_fields)))
       = Inr (PyTx (FeeMarket scenario_tx))"
proof -
  have "length scenario_fields = 12"
    by (simp add: scenario_fields_def)
  moreover have "encode_transaction (PyTx (FeeMarket scenario_tx))
      = Inr (PyBytes (0x02 # rlp_encode (RList scenario_fields)))"
    by (simp add: rlp_of_scenario_tx)
  moreover have "decode_transaction (PyBytes (0x02 # rlp_encode (RList scenario_fields)))
      = Inr (PyTx (FeeMarket scenario_tx))"
    unfolding rlp_encode_scenario_fields by (rule decode_scenario_envelope)
  ultimately show ?thesis
    using rlp_encode_scenario_fields by blast
qed

text \<open>
  C8, as it is stated, fails in the number of fields: the list that is encoded after the
  byte 0x02 has twelve items, not eleven.
\<close>

theorem scenario_fields_not_eleven:
  "encode_transaction (PyTx (FeeMarket scenario_tx))
     = Inr (PyBytes (0x02 # rlp_encode (RList scenario_fields)))
   \<and> length scenario_fields \<noteq> 11"
  by (simp add: rlp_of_scenario_tx) (simp add: scenario_fields_def)

text \<open>
  C9: \<^verbatim>\<open>decode_transaction\<close> on the empty byte string fails with \<^verbatim>\<open>IndexError\<close>, from
  reading the first byte, and not with \<^verbatim>\<open>InvalidBlock\<close>.
\<close>

theorem decode_transaction_empty:
  "decode_transaction (PyBytes []) = Inl IndexError
   \<and> decode_transaction (PyBytes []) \<noteq> Inl InvalidBlock"
  by simp

text \<open>
  C10: \<^verbatim>\<open>decode_transaction\<close> returns every object that is not a byte string as it is,
  without checking that it is a legacy transaction: an access-list, fee-market or blob
  transaction handed over as a record comes back unchanged.
\<close>

theorem decode_transaction_not_bytes:
  "(\<forall>bs. x \<noteq> PyBytes bs) \<Longrightarrow> decode_transaction x = Inr x"
  by (cases x) simp_all

theorem decode_transaction_not_bytes_witness:
  "decode_transaction (PyTx (AccessList example_access_list))
     = Inr (PyTx (AccessList example_access_list))
   \<and> decode_transaction (PyTx (FeeMarket scenario_tx)) = Inr (PyTx (FeeMarket scenario_tx))
   \<and> decode_transaction (PyTx (Blob example_blob)) = Inr (PyTx (Blob example_blob))
   \<and> decode_transaction (PyInt 5) = Inr (PyInt 5)"
  using decode_transaction_not_bytes [of "PyTx (AccessList example_access_list)"]
    decode_transaction_not_bytes [of "PyTx (FeeMarket scenario_tx)"]
    decode_transaction_not_bytes [of "PyTx (Blob example_blob)"]
    decode_transaction_not_bytes [of "PyInt 5"]
  by simp

end
